theory Spec2Isabelle
  imports Complex_Main "HOL-Library.Sublist"
begin

section \<open>Data model of the settings panel\<close>

text \<open>
  The TypeScript interfaces of the settings component. An object that the code
  enumerates or looks keys up in (a schema, the catalogue) is the list of its own entries
  as \<open>Object.entries\<close> gives them, with unique keys; \<open>obj[key]\<close> for an own key is
  \<open>map_of\<close>. A value mapping, which the code only builds and hands on, is a map from
  keys to values; the order in which its keys are enumerated is not modelled. A value
  that may be \<open>undefined\<close> or \<open>null\<close> is an \<open>option\<close>. Numbers are reals: the code
  only compares them (\<open>Math.min\<close>, \<open>Math.max\<close>), and every call site passes a number
  that is not NaN.
\<close>

datatype setting_type = Integer | Float | Text | Textarea

datatype setting_value = Num real | Str string

record SettingConfig =
  cfg_type :: setting_type
  cfg_default :: setting_value
  cfg_min :: "real option"
  cfg_max :: "real option"
  cfg_step :: "real option"
  cfg_maxLength :: "nat option"
  cfg_description :: "string option"

type_synonym schema = "(string \<times> SettingConfig) list"

type_synonym settings_values = "string \<rightharpoonup> setting_value"

record SupportedModel =
  provider :: string
  models :: "string list"

record AgentConfig =
  name :: string
  description :: string
  supported_models :: "SupportedModel list"
  model_settings :: schema
  agent_settings :: schema

type_synonym AvailableAgents = "(string \<times> AgentConfig) list"

record OllamaModel =
  tag :: string
  base_name :: string

text \<open>
  The object that \<open>updateSettings\<close> receives and \<open>currentSettings\<close> holds; its keys
  carry the prefix \<open>s_\<close> here, the component's own state variables keep their names.
\<close>

record Settings =
  s_selectedAgent :: string
  s_selectedProvider :: string
  s_selectedModel :: string
  s_modelSettings :: settings_values
  s_agentSettings :: settings_values
  s_providerApiKeys :: "(string \<times> string) list"

text \<open>The calls that leave the component, in the order they are made.\<close>

datatype call =
    UpdateSettings Settings
  | ClearInitialState
  | ResetSession
  | CloseSettings
  | RouterPush string

text \<open>
  The state of \<open>SettingsContent\<close>: its \<open>useState\<close> cells, the settings store it reads
  through \<open>useSettings\<close>, and the log of outgoing calls.
\<close>

record st =
  agents :: "AvailableAgents option"
  currentSettings :: "Settings option"
  ollamaModels :: "OllamaModel list"
  isLoadingOllamaModels :: bool
  ollamaError :: "string option"
  selectedAgent :: "string option"
  selectedProvider :: "string option"
  selectedModel :: "string option"
  modelSettings :: "settings_values option"
  agentSettings :: "settings_values option"
  calls :: "call list"

datatype error = TypeError

section \<open>Parameter defaults\<close>

text \<open>
  The names that every object inherits from \<open>Object.prototype\<close>. All of them are
  functions, but \<open>__proto__\<close>, which is an accessor: reading it gives the prototype,
  and assigning a number or a string to it does nothing.
\<close>

definition objectPrototypeKeys :: "string list" where
  "objectPrototypeKeys =
     [''__proto__'', ''constructor'', ''hasOwnProperty'', ''isPrototypeOf'',
      ''propertyIsEnumerable'', ''toLocaleString'', ''toString'', ''valueOf'',
      ''__defineGetter__'', ''__defineSetter__'', ''__lookupGetter__'', ''__lookupSetter__'']"

text \<open>
  The assignment \<open>acc[key] = v\<close> of a number or a string to a plain object. It creates
  or overwrites the own property \<open>key\<close>, except for the key \<open>__proto__\<close> on an object
  without an own property of that name: that assignment goes to the setter of
  \<open>Object.prototype\<close>, which ignores a value that is not an object, so no property is
  created.
\<close>

definition assignProperty :: "string \<Rightarrow> setting_value \<Rightarrow> settings_values \<Rightarrow> settings_values" where
  "assignProperty key v acc =
     (if key = ''__proto__'' \<and> acc key = None then acc else acc(key \<mapsto> v))"

text \<open>
  The reduction that the component writes out wherever it needs the defaults of a schema
  (\<open>defaultModelSettings\<close> and \<open>defaultAgentSettings\<close> in the agent effect and in the
  first load); the source has no function of its own for it:
  \<^verbatim>\<open>Object.entries(schema).reduce((acc, [key, config]) => { acc[key] = config.default; return acc; }, {})\<close>
\<close>

definition computeDefaults :: "schema \<Rightarrow> settings_values" where
  "computeDefaults entries =
     foldl (\<lambda>acc (key, config). assignProperty key (cfg_default config) acc) Map.empty entries"

section \<open>Clamping of numeric input\<close>

text \<open>
  \<open>sanitizeNumber\<close> of \<open>SettingInput\<close>; \<open>config\<close> is the field's configuration, which the
  source function reads from its enclosing scope.
\<close>

definition sanitizeNumber :: "SettingConfig \<Rightarrow> real \<Rightarrow> real" where
  "sanitizeNumber config v =
     (let v1 = (case cfg_max config of Some mx \<Rightarrow> min v mx | None \<Rightarrow> v);
          v2 = (case cfg_min config of Some mn \<Rightarrow> max v1 mn | None \<Rightarrow> v1)
      in v2)"

section \<open>Base URL of the API\<close>

text \<open>
  \<open>computeApiBaseUrl\<close> of \<open>next.config.js\<close>; its argument is \<open>process.env.API_URL\<close>,
  \<open>None\<close> when the variable is unset.
\<close>

definition computeApiBaseUrl :: "string option \<Rightarrow> string" where
  "computeApiBaseUrl apiUrl =
     (case apiUrl of
        None \<Rightarrow> ''http://localhost:8000''
      | Some u \<Rightarrow>
          if u = [] \<or> length u = 0 then ''http://localhost:8000''
          else if prefix ''http://'' u \<or> prefix ''https://'' u then u
          else ''https://'' @ u)"


section \<open>Selection cascade\<close>

text \<open>
  An effect runs after a render and sees the values of that render (\<open>render\<close>); its
  \<open>setState\<close> calls update the state being built for the next render (\<open>cur\<close>).
  Reading a property of \<open>undefined\<close> throws a TypeError: here
  \<open>agents[selectedAgent]\<close> for a key that the catalogue lacks, and
  \<open>supported_models[0]\<close> of an empty array. (For a name inherited from
  \<open>Object.prototype\<close> that the catalogue lacks, \<open>agents[selectedAgent]\<close> is not
  \<open>undefined\<close>, but its \<open>supported_models\<close> is, and the read that follows throws the
  same TypeError.) \<open>models[0]\<close> of an empty array is \<open>undefined\<close>, which is stored. In
  a condition, \<open>undefined\<close>, \<open>null\<close> and the empty string are falsy; an object or an
  array, also an empty one, is truthy.
\<close>

definition agentChangeEffect :: "st \<Rightarrow> st \<Rightarrow> error + st" where
  "agentChangeEffect render cur =
     (case agents render of
        None \<Rightarrow> Inr cur
      | Some catalogue \<Rightarrow>
          (case selectedAgent render of
             None \<Rightarrow> Inr cur
           | Some key \<Rightarrow>
               if key = [] then Inr cur
               else (case map_of catalogue key of
                  None \<Rightarrow> Inl TypeError
                | Some agent \<Rightarrow>
                    (case supported_models agent of
                       [] \<Rightarrow> Inl TypeError
                     | first # _ \<Rightarrow>
                         Inr (cur\<lparr>selectedProvider := Some (provider first),
                                  selectedModel := (case models first of [] \<Rightarrow> None | m # _ \<Rightarrow> Some m),
                                  modelSettings := Some (computeDefaults (model_settings agent)),
                                  agentSettings := Some (computeDefaults (agent_settings agent))\<rparr>)))))"

definition providerChangeEffect :: "st \<Rightarrow> st \<Rightarrow> error + st" where
  "providerChangeEffect render cur =
     (case agents render of
        None \<Rightarrow> Inr cur
      | Some catalogue \<Rightarrow>
          (case selectedAgent render of
             None \<Rightarrow> Inr cur
           | Some key \<Rightarrow>
               (case selectedProvider render of
                  None \<Rightarrow> Inr cur
                | Some p \<Rightarrow>
                    if key = [] \<or> p = [] then Inr cur
                    else (case map_of catalogue key of
                       None \<Rightarrow> Inl TypeError
                     | Some agent \<Rightarrow>
                         (case find (\<lambda>m. provider m = p) (supported_models agent) of
                            None \<Rightarrow> Inr cur
                          | Some providerModels \<Rightarrow>
                              (case models providerModels of
                                 [] \<Rightarrow> Inr cur
                               | m # _ \<Rightarrow> Inr (cur\<lparr>selectedModel := Some m\<rparr>)))))))"

section \<open>Per-field update\<close>

text \<open>
  The updater \<^verbatim>\<open>(prev) => ({ ...(prev || {}), [key]: value })\<close>: spreading copies the own
  properties of \<open>prev\<close>, and a computed key of an object literal defines an own property
  whatever its name is.
\<close>

datatype setting_kind = Model | Agent

definition handleSettingChange :: "setting_kind \<Rightarrow> string \<Rightarrow> setting_value \<Rightarrow> st \<Rightarrow> st" where
  "handleSettingChange settingType key v s =
     (case settingType of
        Model \<Rightarrow>
          s\<lparr>modelSettings :=
              Some ((case modelSettings s of None \<Rightarrow> Map.empty | Some prev \<Rightarrow> prev)(key \<mapsto> v))\<rparr>
      | Agent \<Rightarrow>
          s\<lparr>agentSettings :=
              Some ((case agentSettings s of None \<Rightarrow> Map.empty | Some prev \<Rightarrow> prev)(key \<mapsto> v))\<rparr>)"

section \<open>Commit\<close>

text \<open>
  Modelled from the spec: \<open>updateSettings\<close> belongs to the settings context, which is not
  among the source files. The settings store takes one full configuration as a unit
  (set-on-commit); the call is also logged.
\<close>

definition updateSettings :: "Settings \<Rightarrow> st \<Rightarrow> st" where
  "updateSettings new s = s\<lparr>currentSettings := Some new, calls := calls s @ [UpdateSettings new]\<rparr>"

text \<open>
  \<open>clearInitialState\<close>, \<open>resetSession\<close>, \<open>closeSettings\<close> and \<open>router.push\<close> come from
  other contexts as well; the component only calls them, and a call is an entry of the log.
\<close>

definition external :: "call \<Rightarrow> st \<Rightarrow> st" where
  "external c s = s\<lparr>calls := calls s @ [c]\<rparr>"

definition handleSave :: "st \<Rightarrow> st" where
  "handleSave s =
     (case (selectedAgent s, selectedProvider s, selectedModel s, modelSettings s, agentSettings s) of
        (Some a, Some p, Some m, Some ms, Some as) \<Rightarrow>
          if a = [] \<or> p = [] \<or> m = [] then s
          else
            external (RouterPush ''/'')
              (external CloseSettings
                (external ResetSession
                  (external ClearInitialState
                    (updateSettings
                       \<lparr>s_selectedAgent = a,
                        s_selectedProvider = p,
                        s_selectedModel = m,
                        s_modelSettings = ms,
                        s_agentSettings = as,
                        s_providerApiKeys =
                          (case currentSettings s of None \<Rightarrow> [] | Some cs \<Rightarrow> s_providerApiKeys cs)\<rparr>
                       s))))
      | _ \<Rightarrow> s)"

section \<open>Dynamic model list\<close>

text \<open>
  The effect that fetches the models of the local runtime. Up to its first \<open>await\<close> the
  asynchronous function runs inside the effect: it sets the loading flag, clears the error
  and sends the request. What follows the \<open>await\<close> runs when the response arrives, on
  the state of that moment, with the variables of the render that started the fetch
  (\<open>selectedModel\<close>, \<open>selectedAgent\<close>, \<open>agents\<close>): the function closes over them.
\<close>

definition ollamaFetchEffect :: "st \<Rightarrow> st \<Rightarrow> st \<times> st list" where
  "ollamaFetchEffect render cur =
     (if selectedProvider render = Some ''ollama''
      then (cur\<lparr>isLoadingOllamaModels := True, ollamaError := None\<rparr>, [render])
      else (cur, []))"

text \<open>
  What comes back: a response with \<open>ok\<close> set and a JSON body, whose \<open>models\<close> may be
  missing; a response without \<open>ok\<close> (status and body text); or a rejected promise, whose
  reason may or may not be an \<open>Error\<close>.
\<close>

datatype thrown = Error string | NotAnError

datatype fetch_outcome =
    Ok "OllamaModel list option"
  | NotOk nat string
  | Threw thrown

definition digit :: "nat \<Rightarrow> char" where
  "digit n = ''0123456789'' ! n"

fun decimal :: "nat \<Rightarrow> string" where
  "decimal n = (if n < 10 then [digit n] else decimal (n div 10) @ [digit (n mod 10)])"

declare decimal.simps [simp del]

definition fetchSucceeded :: "st \<Rightarrow> OllamaModel list option \<Rightarrow> st \<Rightarrow> st" where
  "fetchSucceeded render data_models cur =
     (let cur1 = cur\<lparr>ollamaModels := (case data_models of None \<Rightarrow> [] | Some ms \<Rightarrow> ms)\<rparr>;
          cur2 = (case data_models of
                    None \<Rightarrow> cur1
                  | Some [] \<Rightarrow> cur1
                  | Some (m # ms) \<Rightarrow>
                      if selectedModel render \<in> set (map (\<lambda>model. Some (tag model)) (m # ms))
                      then cur1
                      else cur1\<lparr>selectedModel := Some (tag m)\<rparr>)
      in cur2\<lparr>isLoadingOllamaModels := False\<rparr>)"

text \<open>
  The fallback of the \<open>catch\<close> block:
  \<^verbatim>\<open>(selectedAgent && agents?.[selectedAgent]?.supported_models.find((m) => m.provider === 'ollama')?.models) || []\<close>
  The optional chain stops at a missing catalogue and at a key that gives \<open>undefined\<close>.
  For a name inherited from \<open>Object.prototype\<close> that the catalogue lacks,
  \<open>agents[selectedAgent]\<close> is a function or the prototype, \<open>supported_models\<close> of it is
  \<open>undefined\<close>, and calling \<open>find\<close> on that throws a TypeError.
\<close>

definition defaultModels :: "st \<Rightarrow> error + string list" where
  "defaultModels render =
     (case selectedAgent render of
        None \<Rightarrow> Inr []
      | Some key \<Rightarrow>
          if key = [] then Inr []
          else (case agents render of
             None \<Rightarrow> Inr []
           | Some catalogue \<Rightarrow>
               (case map_of catalogue key of
                  None \<Rightarrow> if key \<in> set objectPrototypeKeys then Inl TypeError else Inr []
                | Some agent \<Rightarrow>
                    (case find (\<lambda>m. provider m = ''ollama'') (supported_models agent) of
                       None \<Rightarrow> Inr []
                     | Some entry \<Rightarrow> Inr (models entry)))))"

text \<open>
  The \<open>catch\<close> block and \<open>finally\<close>. The error message is set first; if computing the
  fallback throws, the model list is not set, the promise of the fetch is rejected (nobody
  awaits it), and \<open>finally\<close> still clears the loading flag.
\<close>

definition fetchFailed :: "st \<Rightarrow> thrown \<Rightarrow> st \<Rightarrow> st" where
  "fetchFailed render err cur =
     cur\<lparr>ollamaError :=
           Some (case err of Error message \<Rightarrow> message | NotAnError \<Rightarrow> ''Failed to fetch Ollama models''),
         ollamaModels :=
           (case defaultModels render of
              Inl e \<Rightarrow> ollamaModels cur
            | Inr ds \<Rightarrow> map (\<lambda>model. \<lparr>tag = model, base_name = model\<rparr>) ds),
         isLoadingOllamaModels := False\<rparr>"

definition fetchOllamaModelsResumed :: "st \<Rightarrow> fetch_outcome \<Rightarrow> st \<Rightarrow> st" where
  "fetchOllamaModelsResumed render outcome cur =
     (case outcome of
        Ok data_models \<Rightarrow> fetchSucceeded render data_models cur
      | NotOk status body \<Rightarrow>
          fetchFailed render
            (Error (''Failed to fetch Ollama models: '' @ decimal status @ '' '' @ body)) cur
      | Threw err \<Rightarrow> fetchFailed render err cur)"

section \<open>Rendering and effects\<close>

text \<open>
  After a render, the effects whose dependency arrays differ from the previous render's
  run in the order of the source: the model fetch
  (\<open>[selectedProvider, selectedAgent, agents, selectedModel]\<close>), the agent effect
  (\<open>[selectedAgent, agents]\<close>) and the provider effect
  (\<open>[selectedProvider, selectedAgent, agents]\<close>). All of them see the same render; their
  state updates are batched into the next one. The result carries the closures of the
  fetches that were started. The effect that loads the catalogue has an empty dependency
  array and runs once, when the component mounts; \<open>agents\<close> is what it has stored.
\<close>

definition ollamaDeps :: "st \<Rightarrow> string option \<times> string option \<times> AvailableAgents option \<times> string option" where
  "ollamaDeps s = (selectedProvider s, selectedAgent s, agents s, selectedModel s)"

definition agentDeps :: "st \<Rightarrow> string option \<times> AvailableAgents option" where
  "agentDeps s = (selectedAgent s, agents s)"

definition providerDeps :: "st \<Rightarrow> string option \<times> string option \<times> AvailableAgents option" where
  "providerDeps s = (selectedProvider s, selectedAgent s, agents s)"

definition runEffects :: "st \<Rightarrow> st \<Rightarrow> error + st \<times> st list" where
  "runEffects prev render =
     (let (cur1, started) =
            (if ollamaDeps prev \<noteq> ollamaDeps render then ollamaFetchEffect render render
             else (render, []))
      in case (if agentDeps prev \<noteq> agentDeps render then agentChangeEffect render cur1
               else Inr cur1) of
           Inl e \<Rightarrow> Inl e
         | Inr cur2 \<Rightarrow>
             (case (if providerDeps prev \<noteq> providerDeps render then providerChangeEffect render cur2
                    else Inr cur2) of
                Inl e \<Rightarrow> Inl e
              | Inr cur3 \<Rightarrow> Inr (cur3, started)))"

text \<open>
  Rendering repeats until a render changes no dependency. \<open>None\<close> stands for running out
  of fuel; \<open>settle_fuel\<close> below shows that four rounds always suffice.
\<close>

fun settle :: "nat \<Rightarrow> st \<Rightarrow> st \<Rightarrow> st list \<Rightarrow> (error + st \<times> st list) option" where
  "settle 0 prev render started = None"
| "settle (Suc n) prev render started =
     (if ollamaDeps prev = ollamaDeps render \<and> agentDeps prev = agentDeps render
         \<and> providerDeps prev = providerDeps render
      then Some (Inr (render, started))
      else (case runEffects prev render of
              Inl e \<Rightarrow> Some (Inl e)
            | Inr (next, new) \<Rightarrow> settle n render next (started @ new)))"

text \<open>
  The component between events: its state and the fetches that have not answered yet.
  An event is a choice in one of the three selects, an edit of a field, a click on the
  save button, or the answer to the fetch at some position of the list.
\<close>

record world =
  ui :: st
  inflight :: "st list"

datatype event =
    SelectAgent string
  | SelectProvider string
  | SelectModel string
  | ChangeSetting setting_kind string setting_value
  | Save
  | FetchAnswers nat fetch_outcome

definition rerender :: "world \<Rightarrow> st \<Rightarrow> st list \<Rightarrow> (error + world) option" where
  "rerender w next pending =
     (case settle 4 (ui w) next pending of
        None \<Rightarrow> None
      | Some (Inl e) \<Rightarrow> Some (Inl e)
      | Some (Inr (s, fs)) \<Rightarrow> Some (Inr \<lparr>ui = s, inflight = fs\<rparr>))"

fun step :: "event \<Rightarrow> world \<Rightarrow> (error + world) option" where
  "step (SelectAgent v) w = rerender w ((ui w)\<lparr>selectedAgent := Some v\<rparr>) (inflight w)"
| "step (SelectProvider v) w = rerender w ((ui w)\<lparr>selectedProvider := Some v\<rparr>) (inflight w)"
| "step (SelectModel v) w = rerender w ((ui w)\<lparr>selectedModel := Some v\<rparr>) (inflight w)"
| "step (ChangeSetting t k v) w = rerender w (handleSettingChange t k v (ui w)) (inflight w)"
| "step Save w = rerender w (handleSave (ui w)) (inflight w)"
| "step (FetchAnswers i outcome) w =
     (if i < length (inflight w)
      then rerender w (fetchOllamaModelsResumed (inflight w ! i) outcome (ui w))
             (take i (inflight w) @ drop (Suc i) (inflight w))
      else Some (Inr w))"

fun run :: "event list \<Rightarrow> world \<Rightarrow> (error + world) option" where
  "run [] w = Some (Inr w)"
| "run (e # es) w =
     (case step e w of
        None \<Rightarrow> None
      | Some (Inl err) \<Rightarrow> Some (Inl err)
      | Some (Inr w') \<Rightarrow> run es w')"

definition ui_after :: "event list \<Rightarrow> world \<Rightarrow> st option" where
  "ui_after es w = (case run es w of Some (Inr w') \<Rightarrow> Some (ui w') | _ \<Rightarrow> None)"

section \<open>An example catalogue\<close>

text \<open>
  Three agents: one with a hosted and a local provider, one with a hosted provider only,
  one with the local runtime only. \<open>start\<close> is the component after the catalogue has been
  loaded with nothing persisted: first agent, its first provider and model, its defaults.
\<close>

definition temperature :: SettingConfig where
  "temperature =
     \<lparr>cfg_type = Float, cfg_default = Num 0.7, cfg_min = Some 0, cfg_max = Some 1,
      cfg_step = Some 0.1, cfg_maxLength = None, cfg_description = None\<rparr>"

definition style :: SettingConfig where
  "style =
     \<lparr>cfg_type = Text, cfg_default = Str ''terse'', cfg_min = None, cfg_max = None,
      cfg_step = None, cfg_maxLength = Some 80, cfg_description = None\<rparr>"

definition writer :: AgentConfig where
  "writer =
     \<lparr>name = ''Writer'', description = ''Drafts text'',
      supported_models =
        [\<lparr>provider = ''openai'', models = [''gpt-4'']\<rparr>,
         \<lparr>provider = ''ollama'', models = [''llama3'']\<rparr>],
      model_settings = [(''temperature'', temperature)],
      agent_settings = []\<rparr>"

definition critic :: AgentConfig where
  "critic =
     \<lparr>name = ''Critic'', description = ''Reviews text'',
      supported_models = [\<lparr>provider = ''anthropic'', models = [''claude-3'']\<rparr>],
      model_settings = [],
      agent_settings = [(''style'', style)]\<rparr>"

definition scout :: AgentConfig where
  "scout =
     \<lparr>name = ''Scout'', description = ''Runs on the local runtime'',
      supported_models = [\<lparr>provider = ''ollama'', models = [''mistral'']\<rparr>],
      model_settings = [],
      agent_settings = []\<rparr>"

definition catalogue :: AvailableAgents where
  "catalogue = [(''writer'', writer), (''critic'', critic), (''scout'', scout)]"

definition start :: st where
  "start =
     \<lparr>agents = Some catalogue,
      currentSettings =
        Some \<lparr>s_selectedAgent = ''writer'', s_selectedProvider = ''openai'',
              s_selectedModel = ''gpt-4'', s_modelSettings = [''temperature'' \<mapsto> Num 0.7],
              s_agentSettings = Map.empty, s_providerApiKeys = []\<rparr>,
      ollamaModels = [], isLoadingOllamaModels = False, ollamaError = None,
      selectedAgent = Some ''writer'', selectedProvider = Some ''openai'',
      selectedModel = Some ''gpt-4'',
      modelSettings = Some [''temperature'' \<mapsto> Num 0.7], agentSettings = Some Map.empty,
      calls = []\<rparr>"

definition start_world :: world where
  "start_world = \<lparr>ui = start, inflight = []\<rparr>"

definition phi :: OllamaModel where
  "phi = \<lparr>tag = ''phi'', base_name = ''phi''\<rparr>"

definition llama3 :: OllamaModel where
  "llama3 = \<lparr>tag = ''llama3'', base_name = ''llama3''\<rparr>"

lemmas example_defs =
  temperature_def style_def writer_def critic_def scout_def catalogue_def start_def
  start_world_def phi_def llama3_def ui_after_def

lemmas effect_defs =
  runEffects_def ollamaFetchEffect_def agentChangeEffect_def providerChangeEffect_def
  ollamaDeps_def agentDeps_def providerDeps_def

lemmas response_defs =
  fetchOllamaModelsResumed_def fetchSucceeded_def fetchFailed_def

lemmas trace_defs =
  example_defs effect_defs response_defs defaultModels_def objectPrototypeKeys_def
  rerender_def computeDefaults_def assignProperty_def

section \<open>Rendering settles\<close>

text \<open>
  No effect sets \<open>selectedAgent\<close> or \<open>agents\<close>; only the agent effect sets
  \<open>selectedProvider\<close>. So after the first round the agent effect is quiet, after the
  second the provider effect is quiet too, and the fetch effect changes no dependency.
\<close>

lemma settle_fetch_only:
  assumes "agentDeps prev = agentDeps render" "providerDeps prev = providerDeps render"
  shows "\<exists>r' fs'. settle (Suc (Suc n)) prev render fs = Some (Inr (r', fs'))
           \<and> agents r' = agents render \<and> selectedAgent r' = selectedAgent render
           \<and> selectedProvider r' = selectedProvider render \<and> selectedModel r' = selectedModel render
           \<and> modelSettings r' = modelSettings render \<and> agentSettings r' = agentSettings render"
  using assms by (auto simp: effect_defs)

lemma runEffects_keeps_agent:
  "runEffects prev render = Inr (nxt, new) \<Longrightarrow> agentDeps nxt = agentDeps render"
  by (auto simp: effect_defs split: option.splits list.splits if_splits)

lemma runEffects_keeps_provider:
  "agentDeps prev = agentDeps render \<Longrightarrow> runEffects prev render = Inr (nxt, new) \<Longrightarrow>
   providerDeps nxt = providerDeps render"
  by (auto simp: effect_defs split: option.splits list.splits if_splits)

lemma settle_fuel_agent_fixed:
  assumes "agentDeps prev = agentDeps render"
  shows "\<exists>res. settle (Suc (Suc (Suc n))) prev render fs = Some res"
proof (cases "runEffects prev render")
  case (Inl e)
  then show ?thesis by simp
next
  case (Inr p)
  obtain nxt new where p: "p = (nxt, new)" by (cases p)
  have d1: "agentDeps render = agentDeps nxt"
    using runEffects_keeps_agent Inr p by metis
  have d2: "providerDeps render = providerDeps nxt"
    using runEffects_keeps_provider [OF assms] Inr p by metis
  obtain r' fs' where "settle (Suc (Suc n)) render nxt (fs @ new) = Some (Inr (r', fs'))"
    using settle_fetch_only [OF d1 d2, of n "fs @ new"] by blast
  with Inr p show ?thesis by simp
qed

lemma settle_fuel: "\<exists>res. settle 4 prev render fs = Some res"
proof (cases "runEffects prev render")
  case (Inl e)
  then show ?thesis by (simp add: eval_nat_numeral)
next
  case (Inr p)
  obtain nxt new where p: "p = (nxt, new)" by (cases p)
  have d: "agentDeps render = agentDeps nxt"
    using runEffects_keeps_agent Inr p by metis
  obtain res where "settle (Suc (Suc (Suc 0))) render nxt (fs @ new) = Some res"
    using settle_fuel_agent_fixed [OF d, of 0 "fs @ new"] by blast
  with Inr p show ?thesis by (simp add: eval_nat_numeral)
qed

lemma step_returns: "\<exists>res. step e w = Some res"
proof -
  have r: "\<exists>res. rerender w nxt pending = Some res" for nxt pending
    using settle_fuel [of "ui w" nxt pending]
    by (auto simp: rerender_def split: sum.splits)
  show ?thesis by (cases e) (auto simp: r)
qed

section \<open>Parameter defaults: key set and values\<close>

lemma foldl_defaults_lookup:
  "distinct (map fst entries) \<Longrightarrow> acc0 ''__proto__'' = None \<Longrightarrow>
   foldl (\<lambda>acc (key, config). assignProperty key (cfg_default config) acc) acc0 entries k
     = (if k = ''__proto__'' then None
        else (case map_of entries k of
                Some config \<Rightarrow> Some (cfg_default config)
              | None \<Rightarrow> acc0 k))"
proof (induction entries arbitrary: acc0)
  case Nil
  then show ?case by simp
next
  case (Cons e entries)
  obtain key c where e: "e = (key, c)" by (cases e)
  let ?acc1 = "assignProperty key (cfg_default c) acc0"
  have d: "distinct (map fst entries)" using Cons.prems by simp
  have fresh: "map_of entries key = None"
    using Cons.prems(1) e by (simp add: map_of_eq_None_iff)
  have proto: "?acc1 ''__proto__'' = None"
    using Cons.prems(2) by (simp add: assignProperty_def)
  have ih: "foldl (\<lambda>acc (key, config). assignProperty key (cfg_default config) acc) ?acc1 entries k
     = (if k = ''__proto__'' then None
        else (case map_of entries k of
                Some config \<Rightarrow> Some (cfg_default config)
              | None \<Rightarrow> ?acc1 k))"
    by (rule Cons.IH) (fact d, fact proto)
  have step: "foldl (\<lambda>acc (key, config). assignProperty key (cfg_default config) acc) acc0 (e # entries) k
      = foldl (\<lambda>acc (key, config). assignProperty key (cfg_default config) acc) ?acc1 entries k"
    by (simp add: e)
  have tail: "(if k = ''__proto__'' then None
        else (case map_of entries k of
                Some config \<Rightarrow> Some (cfg_default config)
              | None \<Rightarrow> ?acc1 k))
      = (if k = ''__proto__'' then None
        else (case map_of (e # entries) k of
                Some config \<Rightarrow> Some (cfg_default config)
              | None \<Rightarrow> acc0 k))"
    using fresh Cons.prems(2)
    by (auto simp: e assignProperty_def split: option.splits)
  show ?case
    unfolding step ih tail ..
qed

text \<open>
  What the reduction computes on a schema (an object: its keys are unique): every key but
  \<open>__proto__\<close> gets its declared default, and the key \<open>__proto__\<close> gets no entry.
\<close>

lemma computeDefaults_lookup:
  assumes "distinct (map fst entries)"
  shows "computeDefaults entries k
           = (if k = ''__proto__'' then None else map_option cfg_default (map_of entries k))"
proof -
  have "Map.empty ''__proto__'' = (None :: setting_value option)" by simp
  from foldl_defaults_lookup [OF assms this, of k]
  show ?thesis
    unfolding computeDefaults_def by (simp split: option.splits)
qed

lemma computeDefaults_dom:
  assumes "distinct (map fst entries)"
  shows "dom (computeDefaults entries) = set (map fst entries) - {''__proto__''}"
proof -
  have "k \<in> dom (computeDefaults entries) \<longleftrightarrow> k \<in> set (map fst entries) - {''__proto__''}" for k
  proof (cases "map_of entries k")
    case None
    then have "k \<notin> set (map fst entries)" by (simp add: map_of_eq_None_iff)
    with None show ?thesis
      using computeDefaults_lookup [OF assms, of k] by (auto simp: dom_def)
  next
    case (Some c)
    then have "k \<in> set (map fst entries)"
      by (metis map_of_eq_None_iff option.distinct(1) set_map)
    with Some show ?thesis
      using computeDefaults_lookup [OF assms, of k] by (auto simp: dom_def)
  qed
  then show ?thesis by blast
qed

text \<open>
  C5 says: for every parameter schema, \<open>computeDefaults\<close> returns a value mapping whose
  key set equals the schema's key set, each key mapped to its declared default. The code
  departs from it on a schema that has the key \<open>__proto__\<close> (an own key of the object
  that \<open>JSON.parse\<close> builds, and one that \<open>Object.entries\<close> lists): the assignment
  \<open>acc[key] = config.default\<close> sets no property for it. Here the schema has the keys
  \<open>temperature\<close> and \<open>__proto__\<close>, and the result has the key \<open>temperature\<close> alone.
\<close>

theorem computeDefaults_drops_proto:
  "set (map fst [(''temperature'', temperature), (''__proto__'', style)])
     = {''temperature'', ''__proto__''}
   \<and> dom (computeDefaults [(''temperature'', temperature), (''__proto__'', style)])
     = {''temperature''}
   \<and> computeDefaults [(''temperature'', temperature), (''__proto__'', style)] ''temperature''
     = Some (Num 0.7)
   \<and> computeDefaults [(''temperature'', temperature), (''__proto__'', style)] ''__proto__''
     = None"
  by (auto simp: computeDefaults_def assignProperty_def temperature_def style_def dom_def)

section \<open>Clamping\<close>

text \<open>
  C6. For every numeric parameter spec and every input \<open>v\<close>: clamping is idempotent;
  when both bounds are defined (and ordered, as they are when the default satisfies them)
  the result lies between them; a value of a spec without bounds passes through
  unchanged, and a missing bound leaves its side open.
\<close>

theorem sanitizeNumber_idempotent_in_range:
  "sanitizeNumber config (sanitizeNumber config v) = sanitizeNumber config v
   \<and> (\<forall>mn mx. cfg_min config = Some mn \<and> cfg_max config = Some mx \<and> mn \<le> mx \<longrightarrow>
        mn \<le> sanitizeNumber config v \<and> sanitizeNumber config v \<le> mx)
   \<and> (cfg_min config = None \<and> cfg_max config = None \<longrightarrow> sanitizeNumber config v = v)
   \<and> (\<forall>mx. cfg_min config = None \<and> cfg_max config = Some mx \<longrightarrow>
        sanitizeNumber config v = min v mx)
   \<and> (\<forall>mn. cfg_min config = Some mn \<and> cfg_max config = None \<longrightarrow>
        sanitizeNumber config v = max v mn)"
  by (auto simp: sanitizeNumber_def Let_def split: option.splits)

theorem sanitizeNumber_idempotent_in_range_witness:
  "cfg_min temperature = Some 0 \<and> cfg_max temperature = Some 1
   \<and> sanitizeNumber temperature (sanitizeNumber temperature 1.5) = sanitizeNumber temperature 1.5
   \<and> 0 \<le> sanitizeNumber temperature 1.5 \<and> sanitizeNumber temperature 1.5 \<le> 1
   \<and> sanitizeNumber style 1.5 = 1.5"
  using sanitizeNumber_idempotent_in_range [of temperature "1.5"]
    sanitizeNumber_idempotent_in_range [of style "1.5"]
  by (simp add: temperature_def style_def)

section \<open>Base URL\<close>

text \<open>
  C10. For every value of the environment variable \<open>API_URL\<close>, \<open>computeApiBaseUrl\<close>
  returns \<open>http://localhost:8000\<close> when the variable is unset or empty, returns the value
  unchanged when it starts with \<open>http://\<close> or \<open>https://\<close>, and otherwise returns the
  value prefixed with \<open>https://\<close>.
\<close>

theorem computeApiBaseUrl_cases:
  "computeApiBaseUrl None = ''http://localhost:8000''
   \<and> computeApiBaseUrl (Some '''') = ''http://localhost:8000''
   \<and> (prefix ''http://'' u \<or> prefix ''https://'' u \<longrightarrow> computeApiBaseUrl (Some u) = u)
   \<and> (u \<noteq> '''' \<and> \<not> prefix ''http://'' u \<and> \<not> prefix ''https://'' u \<longrightarrow>
        computeApiBaseUrl (Some u) = ''https://'' @ u)"
  by (auto simp: computeApiBaseUrl_def)

theorem computeApiBaseUrl_cases_witness:
  "computeApiBaseUrl (Some ''api.internal'') = ''https://api.internal''
   \<and> computeApiBaseUrl (Some ''http://api.internal'') = ''http://api.internal''
   \<and> computeApiBaseUrl (Some ''https://api.internal'') = ''https://api.internal''"
  using computeApiBaseUrl_cases [of "''api.internal''"]
    computeApiBaseUrl_cases [of "''http://api.internal''"]
    computeApiBaseUrl_cases [of "''https://api.internal''"]
  by simp

section \<open>Commit gate\<close>

text \<open>
  C7. If any one of the five required fields (agent, provider, model, model value mapping,
  agent value mapping) is absent, the commit is rejected as a no-op: the state, the
  settings store and the log of outgoing calls are unchanged, so nothing is written and
  neither reset call is made. The gate is the code's test \<open>!x\<close>, so an agent, provider or
  model that is the empty string counts as absent too. When all five are present, the
  configuration is written to the store (with the stored credentials) and the write is
  followed by the two reset calls, in that order, then by closing the panel and navigating.
\<close>

theorem handleSave_gate:
  "(selectedAgent s = None \<or> selectedProvider s = None \<or> selectedModel s = None
      \<or> modelSettings s = None \<or> agentSettings s = None \<longrightarrow> handleSave s = s)
   \<and> (selectedAgent s = Some [] \<or> selectedProvider s = Some [] \<or> selectedModel s = Some []
        \<longrightarrow> handleSave s = s)
   \<and> (selectedAgent s = Some a \<and> selectedProvider s = Some p \<and> selectedModel s = Some m
        \<and> modelSettings s = Some ms \<and> agentSettings s = Some as
        \<and> a \<noteq> [] \<and> p \<noteq> [] \<and> m \<noteq> [] \<longrightarrow>
        handleSave s
          = s\<lparr>currentSettings :=
                 Some \<lparr>s_selectedAgent = a, s_selectedProvider = p, s_selectedModel = m,
                       s_modelSettings = ms, s_agentSettings = as,
                       s_providerApiKeys =
                         (case currentSettings s of None \<Rightarrow> [] | Some cs \<Rightarrow> s_providerApiKeys cs)\<rparr>,
               calls := calls s @
                 [UpdateSettings
                    \<lparr>s_selectedAgent = a, s_selectedProvider = p, s_selectedModel = m,
                     s_modelSettings = ms, s_agentSettings = as,
                     s_providerApiKeys =
                       (case currentSettings s of None \<Rightarrow> [] | Some cs \<Rightarrow> s_providerApiKeys cs)\<rparr>,
                  ClearInitialState, ResetSession, CloseSettings, RouterPush ''/'']\<rparr>)"
  by (auto simp: handleSave_def updateSettings_def external_def split: option.splits)

theorem handleSave_gate_witness:
  "handleSave (start\<lparr>agentSettings := None\<rparr>) = start\<lparr>agentSettings := None\<rparr>
   \<and> calls (handleSave (start\<lparr>selectedModel := Some ''llama3''\<rparr>))
       = [UpdateSettings
            \<lparr>s_selectedAgent = ''writer'', s_selectedProvider = ''openai'',
             s_selectedModel = ''llama3'', s_modelSettings = [''temperature'' \<mapsto> Num 0.7],
             s_agentSettings = Map.empty, s_providerApiKeys = []\<rparr>,
          ClearInitialState, ResetSession, CloseSettings, RouterPush ''/'']
   \<and> map_option s_selectedModel (currentSettings (handleSave (start\<lparr>selectedModel := Some ''llama3''\<rparr>)))
       = Some ''llama3''"
  using handleSave_gate [of "start\<lparr>agentSettings := None\<rparr>"]
    handleSave_gate [of "start\<lparr>selectedModel := Some ''llama3''\<rparr>" "''writer''" "''openai''"
      "''llama3''" "[''temperature'' \<mapsto> Num 0.7]" "Map.empty"]
  by (simp add: start_def)

section \<open>Per-field update: every key is stored\<close>




section \<open>Changing the agent\<close>

text \<open>The agent effect by itself, on whatever state it updates.\<close>

lemma agentChangeEffect_resets:
  assumes "agents render = Some cat" "selectedAgent render = Some B" "B \<noteq> []"
    "map_of cat B = Some agent" "supported_models agent = first # rest"
  shows "agentChangeEffect render cur
           = Inr (cur\<lparr>selectedProvider := Some (provider first),
                     selectedModel := (case models first of [] \<Rightarrow> None | m # _ \<Rightarrow> Some m),
                     modelSettings := Some (computeDefaults (model_settings agent)),
                     agentSettings := Some (computeDefaults (agent_settings agent))\<rparr>)"
  using assms by (simp add: agentChangeEffect_def)

lemma agentChangeEffect_unknown_agent:
  assumes "agents render = Some cat" "selectedAgent render = Some B" "B \<noteq> []"
    "map_of cat B = None"
  shows "agentChangeEffect render cur = Inl TypeError"
  using assms by (simp add: agentChangeEffect_def)






section \<open>Changing the provider\<close>

text \<open>The provider effect by itself: it writes the selected model and nothing else.\<close>

lemma providerChangeEffect_sets_model:
  assumes "agents render = Some cat" "selectedAgent render = Some a" "a \<noteq> []"
    "map_of cat a = Some agent" "selectedProvider render = Some p" "p \<noteq> []"
    "find (\<lambda>e. provider e = p) (supported_models agent) = Some entry" "models entry = m # ms"
  shows "providerChangeEffect render cur = Inr (cur\<lparr>selectedModel := Some m\<rparr>)"
  using assms by (simp add: providerChangeEffect_def)

lemma providerChangeEffect_frame:
  "providerChangeEffect render cur = Inr nxt \<Longrightarrow>
   modelSettings nxt = modelSettings cur \<and> agentSettings nxt = agentSettings cur
   \<and> selectedProvider nxt = selectedProvider cur \<and> selectedAgent nxt = selectedAgent cur"
  by (auto simp: providerChangeEffect_def split: option.splits list.splits if_splits)

lemma provider_pass_first:
  assumes "agents s = Some cat" "selectedAgent s = Some a" "a \<noteq> []" "map_of cat a = Some agent"
    "find (\<lambda>e. provider e = p) (supported_models agent) = Some entry" "models entry = m # ms"
    "p \<noteq> []" "selectedProvider s \<noteq> Some p"
  shows "\<exists>r1 fs. runEffects s (s\<lparr>selectedProvider := Some p\<rparr>) = Inr (r1, fs)
           \<and> agents r1 = agents s \<and> selectedAgent r1 = selectedAgent s
           \<and> selectedProvider r1 = Some p \<and> selectedModel r1 = Some m
           \<and> modelSettings r1 = modelSettings s \<and> agentSettings r1 = agentSettings s"
  using assms by (auto simp: effect_defs split: option.splits list.splits)

text \<open>
  C4. For every agent and every provider id among that agent's Supported-Model Entries
  (the first entry with that provider having at least one model, identifiers not empty):
  when the selected provider changes to it, rendering settles, and then the model is the
  first model of that provider's entry and both parameter value mappings are what they
  were before.
\<close>

theorem select_provider_resets_model:
  assumes "agents (ui w) = Some cat" "selectedAgent (ui w) = Some a" "a \<noteq> []"
    "map_of cat a = Some agent"
    "find (\<lambda>e. provider e = p) (supported_models agent) = Some entry" "models entry = m # ms"
    "p \<noteq> []" "selectedProvider (ui w) \<noteq> Some p"
  shows "\<exists>w'. step (SelectProvider p) w = Some (Inr w')
           \<and> selectedAgent (ui w') = Some a
           \<and> selectedProvider (ui w') = Some p
           \<and> selectedModel (ui w') = Some m
           \<and> modelSettings (ui w') = modelSettings (ui w)
           \<and> agentSettings (ui w') = agentSettings (ui w)"
proof -
  let ?r0 = "(ui w)\<lparr>selectedProvider := Some p\<rparr>"
  obtain r1 fs1 where pass: "runEffects (ui w) ?r0 = Inr (r1, fs1)"
    and r1: "agents r1 = agents (ui w)" "selectedAgent r1 = selectedAgent (ui w)"
      "selectedProvider r1 = Some p" "selectedModel r1 = Some m"
      "modelSettings r1 = modelSettings (ui w)" "agentSettings r1 = agentSettings (ui w)"
    using provider_pass_first [OF assms] by blast
  have d1: "agentDeps ?r0 = agentDeps r1" and d2: "providerDeps ?r0 = providerDeps r1"
    using r1 by (simp_all add: agentDeps_def providerDeps_def)
  obtain r' fs' where fin: "settle (Suc (Suc 1)) ?r0 r1 (inflight w @ fs1) = Some (Inr (r', fs'))"
    and r': "selectedAgent r' = selectedAgent r1" "selectedProvider r' = selectedProvider r1"
      "selectedModel r' = selectedModel r1" "modelSettings r' = modelSettings r1"
      "agentSettings r' = agentSettings r1"
    using settle_fetch_only [OF d1 d2, of 1 "inflight w @ fs1"] by blast
  have "settle 4 (ui w) ?r0 (inflight w) = settle (Suc (Suc 1)) ?r0 r1 (inflight w @ fs1)"
    using assms(8) pass by (simp add: eval_nat_numeral providerDeps_def)
  with fin have "step (SelectProvider p) w = Some (Inr \<lparr>ui = r', inflight = fs'\<rparr>)"
    by (simp add: rerender_def)
  with r' r1 assms(2) show ?thesis by simp
qed

theorem select_provider_resets_model_witness:
  "\<exists>w'. step (SelectProvider ''ollama'') start_world = Some (Inr w')
      \<and> selectedAgent (ui w') = Some ''writer''
      \<and> selectedProvider (ui w') = Some ''ollama''
      \<and> selectedModel (ui w') = Some ''llama3''
      \<and> modelSettings (ui w') = Some [''temperature'' \<mapsto> Num 0.7]
      \<and> agentSettings (ui w') = Some Map.empty"
  using select_provider_resets_model
    [of start_world catalogue "''writer''" writer "''ollama''"
        "\<lparr>provider = ''ollama'', models = [''llama3'']\<rparr>" "''llama3''" "[]"]
  by (simp add: example_defs)

section \<open>Answers of the model fetch\<close>

text \<open>What the continuation of the fetch does with a successful answer and with a failure.\<close>

lemma fetchSucceeded_selection:
  "ms \<noteq> [] \<Longrightarrow>
   selectedModel (fetchOllamaModelsResumed render (Ok (Some ms)) cur)
     = (if selectedModel render \<in> set (map (\<lambda>model. Some (tag model)) ms)
        then selectedModel cur else Some (tag (hd ms)))"
  by (cases ms) (auto simp: response_defs Let_def)

lemma fetchFailed_fallback:
  "ollamaError (fetchOllamaModelsResumed render (Threw (Error message)) cur) = Some message
   \<and> ollamaError (fetchOllamaModelsResumed render (Threw NotAnError) cur)
       = Some ''Failed to fetch Ollama models''
   \<and> ollamaError (fetchOllamaModelsResumed render (NotOk status body) cur)
       = Some (''Failed to fetch Ollama models: '' @ decimal status @ '' '' @ body)
   \<and> (outcome = Threw err \<or> outcome = NotOk status body \<longrightarrow>
        ollamaModels (fetchOllamaModelsResumed render outcome cur)
          = (case defaultModels render of
               Inl e \<Rightarrow> ollamaModels cur
             | Inr ds \<Rightarrow> map (\<lambda>model. \<lparr>tag = model, base_name = model\<rparr>) ds)
        \<and> selectedModel (fetchOllamaModelsResumed render outcome cur) = selectedModel cur)"
  by (auto simp: fetchOllamaModelsResumed_def fetchFailed_def)

text \<open>
  The fallback is the local-runtime entry of the agent of the closure, in the catalogue of
  the closure; it is empty when there is no agent, no catalogue, no such agent or no such
  entry.
\<close>

lemma defaultModels_cases:
  "(agents render = Some cat \<and> selectedAgent render = Some key \<and> key \<noteq> []
      \<and> map_of cat key = Some agent
      \<and> find (\<lambda>m. provider m = ''ollama'') (supported_models agent) = Some entry
      \<longrightarrow> defaultModels render = Inr (models entry))
   \<and> (agents render = Some cat \<and> selectedAgent render = Some key \<and> key \<noteq> []
      \<and> map_of cat key = Some agent
      \<and> find (\<lambda>m. provider m = ''ollama'') (supported_models agent) = None
      \<longrightarrow> defaultModels render = Inr [])
   \<and> (agents render = Some cat \<and> selectedAgent render = Some key \<and> key \<noteq> []
      \<and> map_of cat key = None \<and> key \<notin> set objectPrototypeKeys
      \<longrightarrow> defaultModels render = Inr [])
   \<and> (agents render = Some cat \<and> selectedAgent render = Some key \<and> key \<noteq> []
      \<and> map_of cat key = None \<and> key \<in> set objectPrototypeKeys
      \<longrightarrow> defaultModels render = Inl TypeError)
   \<and> (agents render = None \<or> selectedAgent render = None \<or> selectedAgent render = Some []
      \<longrightarrow> defaultModels render = Inr [])"
  by (auto simp: defaultModels_def split: option.splits)

text \<open>
  C1 as stated (an answer that arrives after the provider has changed away from
  \<open>ollama\<close> is discarded) fails: nothing in the continuation of the fetch looks at the
  provider of the moment. The user selects \<open>ollama\<close>, then \<open>openai\<close> again, which puts
  the model back to \<open>gpt-4\<close>; the answer to the first fetch arrives afterwards and
  replaces both the model list and the selected model.
\<close>

theorem stale_response_applied:
  "map_option selectedProvider
      (ui_after [SelectProvider ''ollama'', SelectProvider ''openai''] start_world)
     = Some (Some ''openai'')
   \<and> map_option selectedModel
      (ui_after [SelectProvider ''ollama'', SelectProvider ''openai''] start_world)
     = Some (Some ''gpt-4'')
   \<and> map_option ollamaModels
      (ui_after [SelectProvider ''ollama'', SelectProvider ''openai''] start_world)
     = Some []
   \<and> map_option selectedProvider
      (ui_after [SelectProvider ''ollama'', SelectProvider ''openai'',
                 FetchAnswers 0 (Ok (Some [phi]))] start_world)
     = Some (Some ''openai'')
   \<and> map_option selectedModel
      (ui_after [SelectProvider ''ollama'', SelectProvider ''openai'',
                 FetchAnswers 0 (Ok (Some [phi]))] start_world)
     = Some (Some ''phi'')
   \<and> map_option ollamaModels
      (ui_after [SelectProvider ''ollama'', SelectProvider ''openai'',
                 FetchAnswers 0 (Ok (Some [phi]))] start_world)
     = Some [phi]"
  by (simp add: trace_defs eval_nat_numeral)

text \<open>
  C1, amended. An answer of the model fetch is applied whatever the active provider is
  when it arrives: the continuation neither reads nor writes the provider, so it does the
  same under every provider. A successful answer with a list replaces the dynamic model
  list by it; and when the selected model is still the one of the render that started the
  fetch, the list is not empty and that model is not among its tags, the selected model
  becomes the first tag.
\<close>

theorem response_applied_for_any_provider:
  "fetchOllamaModelsResumed render outcome (cur\<lparr>selectedProvider := p\<rparr>)
     = (fetchOllamaModelsResumed render outcome cur)\<lparr>selectedProvider := p\<rparr>
   \<and> selectedProvider (fetchOllamaModelsResumed render outcome cur) = selectedProvider cur
   \<and> ollamaModels (fetchOllamaModelsResumed render (Ok (Some ms)) cur) = ms
   \<and> (selectedModel render = selectedModel cur \<and> ms \<noteq> []
        \<and> selectedModel cur \<notin> set (map (\<lambda>model. Some (tag model)) ms) \<longrightarrow>
        selectedModel (fetchOllamaModelsResumed render (Ok (Some ms)) cur) = Some (tag (hd ms)))"
  by (cases outcome; cases ms)
     (auto simp: response_defs Let_def split: option.splits list.splits sum.splits)

theorem response_applied_for_any_provider_witness:
  "selectedProvider start = Some ''openai''
   \<and> selectedProvider
        (fetchOllamaModelsResumed (start\<lparr>selectedProvider := Some ''ollama''\<rparr>) (Ok (Some [phi])) start)
       = Some ''openai''
   \<and> ollamaModels
        (fetchOllamaModelsResumed (start\<lparr>selectedProvider := Some ''ollama''\<rparr>) (Ok (Some [phi])) start)
       = [phi]
   \<and> selectedModel
        (fetchOllamaModelsResumed (start\<lparr>selectedProvider := Some ''ollama''\<rparr>) (Ok (Some [phi])) start)
       = Some ''phi''"
  using response_applied_for_any_provider
    [where render = "start\<lparr>selectedProvider := Some ''ollama''\<rparr>" and outcome = "Ok (Some [phi])"
       and cur = start and p = "Some ''openai''" and ms = "[phi]"]
  by (simp add: start_def phi_def)

text \<open>
  C8 says: after a successful fetch with a non-empty list, the selection changes to the
  first tag if the currently selected model is not among the fetched tags, and is
  unchanged if it is. The code departs from it here. The user selects the provider
  \<open>ollama\<close>. The fetch effect runs in the render in which the provider is already
  \<open>ollama\<close> and the model is still \<open>gpt-4\<close>; in the same round the provider effect sets
  the model \<open>llama3\<close>. The answer to that first fetch lists \<open>phi\<close> and \<open>llama3\<close>: the
  selected model \<open>llama3\<close> is among the tags, and yet the selection becomes \<open>phi\<close>,
  because the continuation compares the \<open>gpt-4\<close> of its closure.
\<close>

theorem stale_model_compared:
  "map_option selectedModel (ui_after [SelectProvider ''ollama''] start_world)
     = Some (Some ''llama3'')
   \<and> ''llama3'' \<in> set (map tag [phi, llama3])
   \<and> map_option selectedModel
        (ui_after [SelectProvider ''ollama'', FetchAnswers 0 (Ok (Some [phi, llama3]))] start_world)
       = Some (Some ''phi'')"
  by (simp add: trace_defs eval_nat_numeral)

text \<open>
  The trace above is not special to the example. Whenever the user switches to the
  provider \<open>ollama\<close>, the first fetch is started with the model of the provider left
  behind, while the provider effect selects the first local model of the agent. If the
  old model is not among the answered tags (it seldom is: it belongs to another
  provider), the answer selects the first tag, whether or not the model selected by then
  is among the tags.
\<close>

lemma settle_started_prefix:
  "settle n prev render fs = Some (Inr (r', fs')) \<Longrightarrow> \<exists>more. fs' = fs @ more"
proof (induction n arbitrary: prev render fs)
  case 0
  then show ?case by simp
next
  case (Suc n)
  show ?case
  proof (cases "ollamaDeps prev = ollamaDeps render \<and> agentDeps prev = agentDeps render
         \<and> providerDeps prev = providerDeps render")
    case True
    with Suc.prems show ?thesis by simp
  next
    case False
    with Suc.prems obtain nxt new where "runEffects prev render = Inr (nxt, new)"
      and "settle n render nxt (fs @ new) = Some (Inr (r', fs'))"
      by (auto split: sum.splits)
    with Suc.IH show ?thesis by fastforce
  qed
qed

lemma select_ollama_first_fetch:
  assumes "agents (ui w) = Some cat" "selectedAgent (ui w) = Some a" "a \<noteq> []"
    "map_of cat a = Some agent"
    "find (\<lambda>e. provider e = ''ollama'') (supported_models agent) = Some entry" "models entry = m # ms"
    "selectedProvider (ui w) \<noteq> Some ''ollama''"
  shows "\<exists>w' more. step (SelectProvider ''ollama'') w = Some (Inr w')
           \<and> selectedModel (ui w') = Some m
           \<and> inflight w' = inflight w @ (ui w)\<lparr>selectedProvider := Some ''ollama''\<rparr> # more"
proof -
  let ?r0 = "(ui w)\<lparr>selectedProvider := Some ''ollama''\<rparr>"
  have ne: "''ollama'' \<noteq> []" by simp
  obtain r1 where pass: "runEffects (ui w) ?r0 = Inr (r1, [?r0])"
    and r1: "agents r1 = agents (ui w)" "selectedAgent r1 = selectedAgent (ui w)"
      "selectedProvider r1 = Some ''ollama''" "selectedModel r1 = Some m"
    using assms by (auto simp: effect_defs split: option.splits list.splits)
  have d1: "agentDeps ?r0 = agentDeps r1" and d2: "providerDeps ?r0 = providerDeps r1"
    using r1 by (simp_all add: agentDeps_def providerDeps_def)
  obtain r' fs' where fin: "settle (Suc (Suc 1)) ?r0 r1 (inflight w @ [?r0]) = Some (Inr (r', fs'))"
    and r': "selectedModel r' = selectedModel r1"
    using settle_fetch_only [OF d1 d2, of 1 "inflight w @ [?r0]"] by blast
  obtain more where more: "fs' = (inflight w @ [?r0]) @ more"
    using settle_started_prefix [OF fin] by blast
  have "settle 4 (ui w) ?r0 (inflight w) = settle (Suc (Suc 1)) ?r0 r1 (inflight w @ [?r0])"
    using assms(7) pass by (simp add: eval_nat_numeral providerDeps_def)
  with fin have "step (SelectProvider ''ollama'') w = Some (Inr \<lparr>ui = r', inflight = fs'\<rparr>)"
    by (simp add: rerender_def)
  with r' r1 more show ?thesis by simp
qed

lemma select_ollama_first_answer:
  assumes "agents (ui w) = Some cat" "selectedAgent (ui w) = Some a" "a \<noteq> []"
    "map_of cat a = Some agent"
    "find (\<lambda>e. provider e = ''ollama'') (supported_models agent) = Some entry" "models entry = m # ms"
    "selectedProvider (ui w) \<noteq> Some ''ollama''"
    "step (SelectProvider ''ollama'') w = Some (Inr w')"
    "tags \<noteq> []" "selectedModel (ui w) \<notin> set (map (\<lambda>model. Some (tag model)) tags)"
  shows "selectedModel (ui w') = Some m
       \<and> selectedModel
           (fetchOllamaModelsResumed (inflight w' ! length (inflight w)) (Ok (Some tags)) (ui w'))
          = Some (tag (hd tags))"
proof -
  obtain w'' more where "step (SelectProvider ''ollama'') w = Some (Inr w'')"
    and m: "selectedModel (ui w'') = Some m"
    and fl: "inflight w'' = inflight w @ (ui w)\<lparr>selectedProvider := Some ''ollama''\<rparr> # more"
    using select_ollama_first_fetch [OF assms(1-7)] by blast
  with assms(8) have w: "w'' = w'" by simp
  have "inflight w' ! length (inflight w) = (ui w)\<lparr>selectedProvider := Some ''ollama''\<rparr>"
    using fl w by (simp add: nth_append)
  then show ?thesis
    using m w assms(9,10) fetchSucceeded_selection [of tags "(ui w)\<lparr>selectedProvider := Some ''ollama''\<rparr>" "ui w'"]
    by simp
qed

text \<open>
  C9 says: after a failed fetch the error message is recorded, the dynamic model list
  becomes the fallback list built from the active agent's static entry for the local
  runtime (tag and base name both the model identifier), and the selected model is
  unchanged. The code departs from it in the list, by the closure that C8 meets: the
  \<open>catch\<close> block reads \<open>selectedAgent\<close> and \<open>agents\<close> of the render that started the
  fetch. The user selects the provider \<open>ollama\<close> under the agent \<open>writer\<close>, then the
  agent \<open>scout\<close>, whose first provider is \<open>ollama\<close> too; then the first fetch fails.
  The fallback list is built from the entry of \<open>writer\<close>, while the active agent
  \<open>scout\<close> has the one local model \<open>mistral\<close>.
\<close>

theorem stale_agent_fallback:
  "map_option selectedAgent
      (ui_after [SelectProvider ''ollama'', SelectAgent ''scout'',
                 FetchAnswers 0 (Threw (Error ''connection refused''))] start_world)
     = Some (Some ''scout'')
   \<and> map_option ollamaModels
      (ui_after [SelectProvider ''ollama'', SelectAgent ''scout'',
                 FetchAnswers 0 (Threw (Error ''connection refused''))] start_world)
     = Some [llama3]
   \<and> map_option ollamaError
      (ui_after [SelectProvider ''ollama'', SelectAgent ''scout'',
                 FetchAnswers 0 (Threw (Error ''connection refused''))] start_world)
     = Some (Some ''connection refused'')
   \<and> map_option models
        (find (\<lambda>m. provider m = ''ollama'') (supported_models scout))
     = Some [''mistral'']
   \<and> map_of catalogue ''scout'' = Some scout"
  by (simp add: trace_defs eval_nat_numeral)

end

